theory Spec2Isabelle
  imports Main
begin

section \<open>The voice-turn controller of \<^verbatim>\<open>frontend/src/App.jsx\<close>\<close>

text \<open>
  The component \<^verbatim>\<open>App\<close> keeps its state in React state variables and in refs, and
  changes it only inside event callbacks: the transcript handler of the streaming
  connection, the silence timeout, the user's stop button, the continuations of the two
  HTTP requests and the events of the audio element. Each callback is embedded as a
  function from the state before to the state after. A callback that sends a request
  returns the request beside the state; the part of an \<^verbatim>\<open>async\<close> function after an
  \<^verbatim>\<open>await\<close> is a function of its own, whose parameters are the local variables the
  closure has captured.
\<close>

subsection \<open>Strings\<close>

text \<open>
  A JavaScript string is modelled as a \<^typ>\<open>string\<close>, each \<^typ>\<open>char\<close> standing for one
  code unit below 256. \<^verbatim>\<open>String.prototype.trim\<close> removes white space and line
  terminators from both ends; below 256 these are tab, line feed, vertical tab, form feed,
  carriage return, space and no-break space.
\<close>

definition is_ws :: "char \<Rightarrow> bool" where
  "is_ws c \<longleftrightarrow> c \<in> set [CHR 0x09, CHR 0x0A, CHR 0x0B, CHR 0x0C, CHR 0x0D, CHR 0x20, CHR 0xA0]"

definition trim :: "string \<Rightarrow> string" where
  "trim s = rev (dropWhile is_ws (rev (dropWhile is_ws s)))"

text \<open>\<^verbatim>\<open>Array.prototype.join(' ')\<close> on a list of strings.\<close>

fun join :: "string list \<Rightarrow> string" where
  "join [] = []"
| "join [f] = f"
| "join (f # g # fs) = f @ '' '' @ join (g # fs)"

subsection \<open>State\<close>

text \<open>An entry of \<^verbatim>\<open>chatHistory\<close>: \<^verbatim>\<open>{ question, answer, timestamp }\<close>.\<close>

record chat_turn =
  turn_question :: string
  turn_answer :: string
  turn_timestamp :: string

text \<open>
  The first group of fields are the \<^verbatim>\<open>useState\<close> variables of the voice controls, the
  second the \<^verbatim>\<open>useRef\<close> cells, the third the part of the browser the callbacks act on:
  the timeouts that are scheduled and have neither fired nor been cleared, the media
  recorders whose \<^verbatim>\<open>state\<close> is not \<^verbatim>\<open>'inactive'\<close>, the microphone tracks that have not
  been stopped, the streaming connections on which \<^verbatim>\<open>finish()\<close> has not been called, the
  object URLs that have not been revoked, and the audio elements on which
  \<^verbatim>\<open>onPlayHandler\<close> is registered. Timeouts, recorders, tracks, connections, URLs and
  audio elements are named by numbers; a ref holds \<^const>\<open>None\<close> for \<^verbatim>\<open>null\<close>. A media
  stream is the list of its tracks. The handle \<^verbatim>\<open>setTimeout\<close> returns is a positive
  integer, so the test \<^verbatim>\<open>if (silenceTimerRef.current)\<close> is a test for \<^const>\<open>Some\<close>.
\<close>

record app =
  isRecording :: bool
  isProcessing :: bool
  isSpeaking :: bool
  isListening :: bool
  transcript :: string
  response :: string
  error :: string
  chatHistory :: "chat_turn list"

  mediaRecorderRef :: "nat option"
  deepgramSocketRef :: "nat option"
  transcriptBufferRef :: string
  audioStreamRef :: "nat list option"
  isProcessingRef :: bool
  silenceTimerRef :: "nat option"
  isSpeakingRef :: bool

  pendingTimeouts :: "nat set"
  nextTimeout :: nat
  activeRecorders :: "nat set"
  liveTracks :: "nat set"
  openConnections :: "nat set"
  objectUrls :: "nat set"
  playListeners :: "nat set"
  nextObject :: nat

text \<open>The state after mount: the initial values of \<^verbatim>\<open>useState\<close> and \<^verbatim>\<open>useRef\<close>.\<close>

definition App_init :: app where
  "App_init = \<lparr>
     isRecording = False, isProcessing = False, isSpeaking = False, isListening = False,
     transcript = [], response = [], error = [], chatHistory = [],
     mediaRecorderRef = None, deepgramSocketRef = None, transcriptBufferRef = [],
     audioStreamRef = None, isProcessingRef = False, silenceTimerRef = None,
     isSpeakingRef = False,
     pendingTimeouts = {}, nextTimeout = 1, activeRecorders = {}, liveTracks = {},
     openConnections = {}, objectUrls = {}, playListeners = {}, nextObject = 1 \<rparr>"

subsection \<open>The silence timer\<close>

text \<open>
  The block
  \<^verbatim>\<open>if (silenceTimerRef.current) { clearTimeout(silenceTimerRef.current); silenceTimerRef.current = null; }\<close>
  of the transcript handler, the close handler and \<^verbatim>\<open>stopRecording\<close>.
\<close>

definition clearSilenceTimer :: "app \<Rightarrow> app" where
  "clearSilenceTimer s =
     (case silenceTimerRef s of
        None \<Rightarrow> s
      | Some t \<Rightarrow> s\<lparr>pendingTimeouts := pendingTimeouts s - {t}, silenceTimerRef := None\<rparr>)"

subsection \<open>Dispatch: \<^verbatim>\<open>processTranscript\<close> up to its first \<^verbatim>\<open>await\<close>\<close>

record query_request =
  query :: string
  top_k :: nat

definition processTranscript :: "app \<Rightarrow> app \<times> query_request option" where
  "processTranscript s =
     (if isProcessingRef s then (s, None)
      else
        let currentTranscript = trim (transcriptBufferRef s) in
        if currentTranscript = []
        then (s\<lparr>error := ''No transcript to process. Please speak and try again.''\<rparr>, None)
        else (s\<lparr>isProcessingRef := True, isProcessing := True, error := []\<rparr>,
              Some \<lparr>query = currentTranscript, top_k = 5\<rparr>))"

text \<open>
  The callback given to \<^verbatim>\<open>setTimeout\<close>. It does not reset \<^verbatim>\<open>silenceTimerRef\<close>.
\<close>

definition silenceTimeout :: "app \<Rightarrow> app \<times> query_request option" where
  "silenceTimeout s =
     (if trim (transcriptBufferRef s) \<noteq> [] \<and> \<not> isProcessingRef s
      then processTranscript (s\<lparr>isListening := False\<rparr>)
      else (s, None))"

text \<open>The browser runs the callback of a pending timeout, which is then no longer pending.\<close>

definition fireTimeout :: "nat \<Rightarrow> app \<Rightarrow> app \<times> query_request option" where
  "fireTimeout t s =
     (if t \<in> pendingTimeouts s
      then silenceTimeout (s\<lparr>pendingTimeouts := pendingTimeouts s - {t}\<rparr>)
      else (s, None))"

subsection \<open>The transcript handler\<close>

text \<open>
  \<^verbatim>\<open>data?.channel?.alternatives?.[0]?.transcript\<close> is a string or \<^verbatim>\<open>undefined\<close>;
  \<^verbatim>\<open>data?.is_final || false\<close> is a boolean.
\<close>

record transcript_data =
  transcriptText :: "string option"
  isFinal :: bool

definition onTranscript :: "transcript_data \<Rightarrow> app \<Rightarrow> app" where
  "onTranscript data s =
     (if isSpeakingRef s \<or> isProcessingRef s then s
      else
        case transcriptText data of
          None \<Rightarrow> s
        | Some text \<Rightarrow>
            if text \<noteq> [] \<and> trim text \<noteq> [] then
              let s1 = clearSilenceTimer s in
              if isFinal data then
                let s2 = s1\<lparr>transcriptBufferRef := transcriptBufferRef s1 @ '' '' @ text\<rparr>;
                    s3 = s2\<lparr>transcript := trim (transcriptBufferRef s2)\<rparr>;
                    t = nextTimeout s3
                in s3\<lparr>silenceTimerRef := Some t,
                      pendingTimeouts := insert t (pendingTimeouts s3),
                      nextTimeout := Suc t\<rparr>
              else
                s1\<lparr>transcript := trim (transcriptBufferRef s1 @ '' '' @ text)\<rparr>
            else s)"

definition final :: "string \<Rightarrow> transcript_data" where
  "final f = \<lparr>transcriptText = Some f, isFinal = True\<rparr>"

definition partial :: "string \<Rightarrow> transcript_data" where
  "partial f = \<lparr>transcriptText = Some f, isFinal = False\<rparr>"

text \<open>Transcript events are handled one after the other, in arrival order.\<close>

definition onTranscripts :: "transcript_data list \<Rightarrow> app \<Rightarrow> app" where
  "onTranscripts evs s = fold onTranscript evs s"

text \<open>The test \<^verbatim>\<open>transcriptText && transcriptText.trim()\<close> fails.\<close>

fun blank :: "string option \<Rightarrow> bool" where
  "blank None = True"
| "blank (Some text) = (trim text = [])"

subsection \<open>\<^verbatim>\<open>stopRecording\<close> and the close handler\<close>

text \<open>
  \<^verbatim>\<open>MediaRecorder.stop()\<close> is called only on a recorder that is not inactive and
  \<^verbatim>\<open>MediaStreamTrack.stop()\<close> has no failure, so the two \<^verbatim>\<open>try\<close> blocks run to their
  end. \<^verbatim>\<open>finish()\<close> is taken to succeed; the ref is reset after the \<^verbatim>\<open>try\<close> in any case.
  A recorder that is inactive stays in \<^verbatim>\<open>mediaRecorderRef\<close>.
\<close>

definition stopRecording :: "app \<Rightarrow> app" where
  "stopRecording s =
     (let s1 = s\<lparr>isRecording := False, isListening := False\<rparr>;
          s2 = clearSilenceTimer s1;
          s3 = (case mediaRecorderRef s2 of
                  None \<Rightarrow> s2
                | Some r \<Rightarrow>
                    if r \<in> activeRecorders s2
                    then s2\<lparr>activeRecorders := activeRecorders s2 - {r}, mediaRecorderRef := None\<rparr>
                    else s2);
          s4 = (case audioStreamRef s3 of
                  None \<Rightarrow> s3
                | Some tracks \<Rightarrow>
                    s3\<lparr>liveTracks := liveTracks s3 - set tracks, audioStreamRef := None\<rparr>);
          s5 = (case deepgramSocketRef s4 of
                  None \<Rightarrow> s4
                | Some connection \<Rightarrow>
                    s4\<lparr>openConnections := openConnections s4 - {connection},
                       deepgramSocketRef := None\<rparr>)
      in s5)"

definition onClose :: "app \<Rightarrow> app" where
  "onClose s = clearSilenceTimer (s\<lparr>isListening := False, isRecording := False\<rparr>)"

text \<open>
  The timeouts, tracks and connections of the browser are the ones the refs hold. This
  is so at mount and throughout a first session.
\<close>

definition resources_owned :: "app \<Rightarrow> bool" where
  "resources_owned s \<longleftrightarrow>
     pendingTimeouts s \<subseteq> set_option (silenceTimerRef s) \<and>
     liveTracks s \<subseteq> (case audioStreamRef s of None \<Rightarrow> {} | Some tracks \<Rightarrow> set tracks) \<and>
     openConnections s \<subseteq> set_option (deepgramSocketRef s)"

subsection \<open>\<^verbatim>\<open>startRecording\<close> and the open handler\<close>

text \<open>
  Up to \<^verbatim>\<open>await navigator.mediaDevices.getUserMedia\<close>. \<open>apiKey\<close> is the value of
  \<^verbatim>\<open>deepgramApiKeyRef.current\<close>, which \<^verbatim>\<open>fetchApiKeys\<close> sets; the result says whether
  the microphone has been requested.
\<close>

definition startRecording :: "string option \<Rightarrow> app \<Rightarrow> app \<times> bool" where
  "startRecording apiKey s =
     (if apiKey = None \<or> apiKey = Some []
      then (s\<lparr>error := ''Deepgram API key not loaded. Please refresh the page.''\<rparr>, False)
      else (s\<lparr>error := [], transcript := [], response := [], isRecording := True\<rparr>, True))"

text \<open>
  The microphone has been granted: from \<^verbatim>\<open>audioStreamRef.current = stream\<close> to the
  registration of the handlers, on the path where \<^verbatim>\<open>createClient\<close>, \<^verbatim>\<open>listen.live\<close>
  and \<^verbatim>\<open>new MediaRecorder\<close> succeed. The stream, the connection and the recorder are
  new objects; the tracks of the stream are live, the recorder is not started. The three
  refs are assigned whatever they held before.
\<close>

definition startRecording_granted :: "nat list \<Rightarrow> nat \<Rightarrow> nat \<Rightarrow> app \<Rightarrow> app" where
  "startRecording_granted stream connection mediaRecorder s =
     s\<lparr>audioStreamRef := Some stream,
       liveTracks := liveTracks s \<union> set stream,
       deepgramSocketRef := Some connection,
       openConnections := insert connection (openConnections s),
       mediaRecorderRef := Some mediaRecorder\<rparr>"

text \<open>
  The handler of \<^verbatim>\<open>LiveTranscriptionEvents.Open\<close>; \<open>mediaRecorder\<close> is the recorder its
  closure holds, which \<^verbatim>\<open>start\<close> makes active.
\<close>

definition onOpen :: "nat \<Rightarrow> app \<Rightarrow> app" where
  "onOpen mediaRecorder s =
     s\<lparr>transcriptBufferRef := [], isListening := True,
       activeRecorders := insert mediaRecorder (activeRecorders s)\<rparr>"

subsection \<open>\<^verbatim>\<open>speakResponse\<close>\<close>

record tts_request =
  tts_text :: string
  tts_model :: string

text \<open>Up to \<^verbatim>\<open>await axios.post\<close>.\<close>

definition speakResponse :: "string \<Rightarrow> string \<Rightarrow> app \<Rightarrow> app \<times> tts_request" where
  "speakResponse text question s =
     (s\<lparr>isSpeaking := True, isSpeakingRef := True\<rparr>,
      \<lparr>tts_text = text, tts_model = ''aura-asteria-en''\<rparr>)"

text \<open>
  The variables the three audio handlers close over: the parameters \<^verbatim>\<open>text\<close> and
  \<^verbatim>\<open>question\<close>, the object URL and the audio element.
\<close>

record playback =
  p_text :: string
  p_question :: string
  p_audioUrl :: nat
  p_audio :: nat

text \<open>
  The request has returned the audio: from \<^verbatim>\<open>new Blob\<close> to the call of
  \<^verbatim>\<open>audio.play()\<close>, whose promise is then pending. The URL and the element are new.
\<close>

definition speakResponse_received :: "string \<Rightarrow> string \<Rightarrow> app \<Rightarrow> app \<times> playback" where
  "speakResponse_received text question s =
     (let audioUrl = nextObject s; audio = Suc (nextObject s)
      in (s\<lparr>objectUrls := insert audioUrl (objectUrls s),
             playListeners := insert audio (playListeners s),
             nextObject := Suc (Suc (nextObject s))\<rparr>,
          \<lparr>p_text = text, p_question = question, p_audioUrl = audioUrl, p_audio = audio\<rparr>))"

text \<open>
  \<^verbatim>\<open>new Date().toLocaleTimeString()\<close> is the parameter \<open>now\<close> of the handlers that append
  to the history.
\<close>

definition onPlayHandler :: "playback \<Rightarrow> string \<Rightarrow> app \<Rightarrow> app" where
  "onPlayHandler p now s =
     s\<lparr>response := p_text p,
       chatHistory := chatHistory s @
         [\<lparr>turn_question = p_question p, turn_answer = p_text p, turn_timestamp = now\<rparr>],
       playListeners := playListeners s - {p_audio p}\<rparr>"

text \<open>The element fires \<^verbatim>\<open>play\<close>: the listener runs if it is still registered.\<close>

definition audio_play :: "playback \<Rightarrow> string \<Rightarrow> app \<Rightarrow> app" where
  "audio_play p now s = (if p_audio p \<in> playListeners s then onPlayHandler p now s else s)"

definition audio_onended :: "playback \<Rightarrow> app \<Rightarrow> app" where
  "audio_onended p s =
     s\<lparr>isSpeaking := False, isSpeakingRef := False,
       objectUrls := objectUrls s - {p_audioUrl p}\<rparr>"

definition audio_onerror :: "playback \<Rightarrow> string \<Rightarrow> app \<Rightarrow> app" where
  "audio_onerror p now s =
     s\<lparr>isSpeaking := False, isSpeakingRef := False,
       error := ''Failed to play audio response'',
       response := p_text p,
       chatHistory := chatHistory s @
         [\<lparr>turn_question = p_question p, turn_answer = p_text p, turn_timestamp = now\<rparr>]\<rparr>"

text \<open>
  The \<^verbatim>\<open>catch\<close> block of \<^verbatim>\<open>speakResponse\<close>, entered when the request or
  \<^verbatim>\<open>audio.play()\<close> rejects. \<open>detail\<close> is the value of
  \<^verbatim>\<open>err?.response?.data?.detail || err?.message || 'Unknown error'\<close>.
\<close>

definition speakResponse_catch :: "string \<Rightarrow> string \<Rightarrow> string \<Rightarrow> string \<Rightarrow> app \<Rightarrow> app" where
  "speakResponse_catch text question detail now s =
     s\<lparr>error := ''Failed to generate speech: '' @ detail,
       isSpeaking := False, isSpeakingRef := False,
       response := text,
       chatHistory := chatHistory s @
         [\<lparr>turn_question = question, turn_answer = text, turn_timestamp = now\<rparr>]\<rparr>"

subsection \<open>\<^verbatim>\<open>processTranscript\<close> after its \<^verbatim>\<open>await\<close>s\<close>

text \<open>
  \<^verbatim>\<open>isRecording\<close> in \<^verbatim>\<open>processTranscript\<close> is the state variable of the render in which
  the function was created, not a ref; the value it has there is the parameter
  \<open>isRecording'\<close>. The part after \<^verbatim>\<open>await speakResponse(...)\<close> runs when
  \<^verbatim>\<open>speakResponse\<close> has returned, that is when \<^verbatim>\<open>audio.play()\<close> has resolved or the
  \<^verbatim>\<open>catch\<close> block of \<^verbatim>\<open>speakResponse\<close> is done.
\<close>

definition processTranscript_spoken :: "bool \<Rightarrow> app \<Rightarrow> app" where
  "processTranscript_spoken isRecording' s =
     (let s1 = s\<lparr>transcriptBufferRef := [], transcript := [],
                 isProcessingRef := False, isProcessing := False\<rparr>
      in if isRecording' \<and> deepgramSocketRef s1 \<noteq> None
         then s1\<lparr>isListening := True\<rparr> else s1)"

text \<open>
  The \<^verbatim>\<open>catch\<close> block of \<^verbatim>\<open>processTranscript\<close>, entered when the query request
  rejects. \<open>detail\<close> is the value of \<^verbatim>\<open>err.response?.data?.detail || err.message\<close>.
\<close>

definition processTranscript_catch :: "bool \<Rightarrow> string \<Rightarrow> app \<Rightarrow> app" where
  "processTranscript_catch isRecording' detail s =
     (let s1 = s\<lparr>error := ''Failed to process query: '' @ detail,
                 isProcessingRef := False, isProcessing := False\<rparr>
      in if isRecording' \<and> deepgramSocketRef s1 \<noteq> None
         then s1\<lparr>isListening := True\<rparr> else s1)"

subsection \<open>Callbacks of a dispatch in flight\<close>

text \<open>
  What can still run once \<^verbatim>\<open>processTranscript\<close> has sent its query: the query
  resolves with an answer or rejects; the synthesis request resolves or rejects; the
  promise of \<^verbatim>\<open>audio.play()\<close> resolves or rejects; the audio element fires
  \<^verbatim>\<open>play\<close>, \<^verbatim>\<open>ended\<close> or \<^verbatim>\<open>error\<close>; the connection reports that it has closed.
  Each constructor carries the variables of the closure that runs.
\<close>

datatype callback =
    QueryResolved string string
  | QueryRejected bool string
  | TtsResolved string string
  | TtsRejected bool string string string string
  | PlayResolved bool
  | PlayRejected bool string string string string
  | AudioPlay playback string
  | AudioEnded playback
  | AudioError playback string
  | ConnectionClosed

fun deliver :: "callback \<Rightarrow> app \<Rightarrow> app" where
  "deliver (QueryResolved answer currentTranscript) s =
     fst (speakResponse answer currentTranscript s)"
| "deliver (QueryRejected isRecording' detail) s =
     processTranscript_catch isRecording' detail s"
| "deliver (TtsResolved text question) s =
     fst (speakResponse_received text question s)"
| "deliver (TtsRejected isRecording' text question detail now) s =
     processTranscript_spoken isRecording' (speakResponse_catch text question detail now s)"
| "deliver (PlayResolved isRecording') s =
     processTranscript_spoken isRecording' s"
| "deliver (PlayRejected isRecording' text question detail now) s =
     processTranscript_spoken isRecording' (speakResponse_catch text question detail now s)"
| "deliver (AudioPlay p now) s = audio_play p now s"
| "deliver (AudioEnded p) s = audio_onended p s"
| "deliver (AudioError p now) s = audio_onerror p now s"
| "deliver ConnectionClosed s = onClose s"

text \<open>Callbacks run one after the other, in the order given.\<close>

definition delivers :: "callback list \<Rightarrow> app \<Rightarrow> app" where
  "delivers cs s = fold deliver cs s"

subsection \<open>Example states\<close>

text \<open>
  A session that listens: recorder 1 runs on the stream with the single track 3 and
  feeds connection 2.
\<close>

definition listening :: app where
  "listening = App_init\<lparr>
     isRecording := True, isListening := True,
     mediaRecorderRef := Some 1, deepgramSocketRef := Some 2, audioStreamRef := Some [3],
     activeRecorders := {1}, liveTracks := {3}, openConnections := {2}\<rparr>"

text \<open>
  The connection of the listening session closes, the user starts a conversation again
  and is granted a second stream with the single track 6, on connection 5 and recorder 4.
\<close>

definition restarted :: app where
  "restarted =
     onOpen 4 (startRecording_granted [6] 5 4
       (fst (startRecording (Some ''key'') (onClose listening))))"

text \<open>
  The user has said ``hello'', the silence timeout has fired and the query is in flight.
\<close>

definition asked_hello :: app where
  "asked_hello = fst (fireTimeout 1 (onTranscript (final ''hello'') listening))"

text \<open>
  The query has resolved with the answer ``42'' and the synthesis request has returned
  the audio: the state, and the closure of the audio handlers.
\<close>

definition answered :: "app \<times> playback" where
  "answered =
     speakResponse_received ''42'' ''hello''
       (deliver (QueryResolved ''42'' ''hello'') asked_hello)"

section \<open>Properties\<close>

subsection \<open>Trimming and joining\<close>

lemma trim_ws_Cons: "is_ws c \<Longrightarrow> trim (c # s) = trim s"
  by (simp add: trim_def)

lemma is_ws_space: "is_ws CHR '' ''"
  by (simp add: is_ws_def)

lemma buffer_prefix:
  "concat (map ((#) CHR '' '') gs) = (if gs = [] then [] else CHR '' '' # join gs)"
  by (induction gs rule: join.induct) auto

lemma trim_buffer_prefix: "trim (concat (map ((#) CHR '' '') gs)) = trim (join gs)"
proof (cases "gs = []")
  case True
  then show ?thesis by simp
next
  case False
  then have "concat (map ((#) CHR '' '') gs) = CHR '' '' # join gs"
    by (simp add: buffer_prefix)
  then show ?thesis by (simp add: trim_ws_Cons is_ws_space)
qed

subsection \<open>The committed buffer\<close>

lemma onTranscript_flags:
  "isProcessingRef (onTranscript d s) = isProcessingRef s"
  "isSpeakingRef (onTranscript d s) = isSpeakingRef s"
  by (auto simp: onTranscript_def clearSilenceTimer_def Let_def split: option.splits)

lemma onTranscripts_flags:
  "isProcessingRef (onTranscripts evs s) = isProcessingRef s"
  "isSpeakingRef (onTranscripts evs s) = isSpeakingRef s"
  unfolding onTranscripts_def
  by (induction evs arbitrary: s) (simp_all add: onTranscript_flags)

lemma onTranscript_final_buffer:
  "\<not> isProcessingRef s \<Longrightarrow> \<not> isSpeakingRef s \<Longrightarrow>
   transcriptBufferRef (onTranscript (final f) s) =
     transcriptBufferRef s @ (if trim f = [] then [] else '' '' @ f)"
  by (auto simp: onTranscript_def final_def clearSilenceTimer_def Let_def trim_def
      split: option.splits)

text \<open>
  Each accepted final fragment is appended behind one space; the buffer therefore
  starts with a space, which only trimming removes.
\<close>

lemma onTranscripts_final_buffer:
  "\<not> isProcessingRef s \<Longrightarrow> \<not> isSpeakingRef s \<Longrightarrow>
   transcriptBufferRef (onTranscripts (map final fs) s) =
     transcriptBufferRef s @
       concat (map (\<lambda>f. '' '' @ f) (filter (\<lambda>f. trim f \<noteq> []) fs))"
proof (induction fs arbitrary: s)
  case Nil
  then show ?case by (simp add: onTranscripts_def)
next
  case (Cons f fs)
  have "transcriptBufferRef (onTranscripts (map final fs) (onTranscript (final f) s)) =
     transcriptBufferRef (onTranscript (final f) s) @
       concat (map (\<lambda>f. '' '' @ f) (filter (\<lambda>f. trim f \<noteq> []) fs))"
    using Cons.prems by (intro Cons.IH) (simp_all add: onTranscript_flags)
  then show ?case using Cons.prems
    by (simp add: onTranscripts_def onTranscript_final_buffer)
qed

text \<open>
  Claim C1 as stated fails. The fragments ``a'', the empty fragment and ``b '' arrive as
  final transcripts in a fresh session: the empty one is skipped and the trailing space
  is trimmed, so the trimmed buffer is ``a b'', while joining the three fragments with
  single spaces gives ``a'', two spaces, ``b'', one space.
\<close>

theorem joined_fragments_counterexample:
  "trim (transcriptBufferRef (onTranscripts (map final [''a'', '''', ''b '']) App_init))
     \<noteq> join [''a'', '''', ''b '']"
  by (simp add: onTranscripts_def onTranscript_def final_def clearSilenceTimer_def App_init_def
      trim_def is_ws_def)

text \<open>
  Claim C1, amended. Final transcripts arrive, in any number, while neither
  \<^verbatim>\<open>isProcessingRef\<close> nor \<^verbatim>\<open>isSpeakingRef\<close> is set, in a state whose buffer is empty
  (as it is at mount and after a completed turn). Then the trimmed buffer is the trimmed
  space-joined concatenation, in arrival order, of the fragments that are not blank, and
  \<^verbatim>\<open>processTranscript\<close> sends exactly this text as the query, or sends nothing when it
  is empty.
\<close>

theorem committed_buffer_joins_fragments:
  assumes "\<not> isProcessingRef s" and "\<not> isSpeakingRef s" and "transcriptBufferRef s = []"
  shows "trim (transcriptBufferRef (onTranscripts (map final fs) s))
           = trim (join (filter (\<lambda>f. trim f \<noteq> []) fs))
       \<and> snd (processTranscript (onTranscripts (map final fs) s))
           = (if trim (join (filter (\<lambda>f. trim f \<noteq> []) fs)) = [] then None
              else Some \<lparr>query = trim (join (filter (\<lambda>f. trim f \<noteq> []) fs)), top_k = 5\<rparr>)"
proof -
  let ?s' = "onTranscripts (map final fs) s"
  have buf: "trim (transcriptBufferRef ?s') = trim (join (filter (\<lambda>f. trim f \<noteq> []) fs))"
    using assms by (simp add: onTranscripts_final_buffer trim_buffer_prefix)
  have "\<not> isProcessingRef ?s'"
    using assms by (simp add: onTranscripts_flags)
  then have "snd (processTranscript ?s')
      = (if trim (transcriptBufferRef ?s') = [] then None
         else Some \<lparr>query = trim (transcriptBufferRef ?s'), top_k = 5\<rparr>)"
    by (simp add: processTranscript_def Let_def)
  with buf show ?thesis by simp
qed

theorem committed_buffer_joins_fragments_witness:
  "\<not> isProcessingRef listening \<and> \<not> isSpeakingRef listening \<and> transcriptBufferRef listening = []
   \<and> trim (transcriptBufferRef
        (onTranscripts (map final [''what'', '''', ''is the refund policy'']) listening))
       = ''what is the refund policy''
   \<and> snd (processTranscript
        (onTranscripts (map final [''what'', '''', ''is the refund policy'']) listening))
       = Some \<lparr>query = ''what is the refund policy'', top_k = 5\<rparr>"
  using committed_buffer_joins_fragments
    [of listening "[''what'', '''', ''is the refund policy'']"]
  by (simp add: listening_def App_init_def trim_def is_ws_def)

subsection \<open>Dropped and ignored transcript events\<close>

lemma onTranscript_busy:
  "isSpeakingRef s \<or> isProcessingRef s \<Longrightarrow> onTranscript data s = s"
  by (simp add: onTranscript_def)

text \<open>
  Claim C2. While \<^verbatim>\<open>isProcessingRef\<close> or \<^verbatim>\<open>isSpeakingRef\<close> is set, transcript events,
  final or partial and however many, leave the whole state as it was: in particular the
  committed buffer, the displayed transcript, the timer ref and the pending timeouts.
  Nothing of a dropped event is kept for later.
\<close>

theorem transcripts_dropped_while_busy:
  assumes "isProcessingRef s \<or> isSpeakingRef s"
  shows "onTranscripts evs s = s"
  unfolding onTranscripts_def using assms
  by (induction evs) (auto simp: onTranscript_busy)

theorem transcripts_dropped_while_busy_witness:
  "(isProcessingRef (App_init\<lparr>isSpeakingRef := True, transcriptBufferRef := '' hi'', silenceTimerRef := Some 3\<rparr>)
      \<or> isSpeakingRef (App_init\<lparr>isSpeakingRef := True, transcriptBufferRef := '' hi'', silenceTimerRef := Some 3\<rparr>))
   \<and> onTranscripts [final ''hello'', partial ''wor'', final ''world'']
       (App_init\<lparr>isSpeakingRef := True, transcriptBufferRef := '' hi'', silenceTimerRef := Some 3\<rparr>)
     = App_init\<lparr>isSpeakingRef := True, transcriptBufferRef := '' hi'', silenceTimerRef := Some 3\<rparr>"
  using transcripts_dropped_while_busy
    [of "App_init\<lparr>isSpeakingRef := True, transcriptBufferRef := '' hi'', silenceTimerRef := Some 3\<rparr>"
        "[final ''hello'', partial ''wor'', final ''world'']"]
  by simp

text \<open>
  Claim C10. A transcript event whose text is missing, empty or white space only changes
  nothing, whether it is final or partial: the buffer, the displayed transcript, the timer
  ref and the pending timeouts are as before, so a running silence timer is not cancelled.
\<close>

theorem blank_transcript_ignored:
  assumes "blank (transcriptText data)"
  shows "onTranscript data s = s"
  using assms by (cases "transcriptText data") (auto simp: onTranscript_def)

theorem blank_transcript_ignored_witness:
  "blank (transcriptText (final [CHR 0x20, CHR 0x09, CHR 0x20]))
   \<and> onTranscript (final [CHR 0x20, CHR 0x09, CHR 0x20]) (onTranscript (final ''hello'') App_init)
       = onTranscript (final ''hello'') App_init"
  using blank_transcript_ignored
    [of "final [CHR 0x20, CHR 0x09, CHR 0x20]" "onTranscript (final ''hello'') App_init"]
  by (simp add: final_def trim_def is_ws_def)

subsection \<open>One dispatch at a time\<close>

lemma dispatch_noop_in_flight:
  "isProcessingRef s \<Longrightarrow> processTranscript s = (s, None) \<and> silenceTimeout s = (s, None)"
  by (simp add: processTranscript_def silenceTimeout_def)

text \<open>
  Claim C4. Once an invocation of \<^verbatim>\<open>processTranscript\<close> has sent its query,
  \<^verbatim>\<open>isProcessingRef\<close> is set in the state it leaves, before any \<^verbatim>\<open>await\<close>; a second
  invocation in that state, direct or from the silence timeout, returns the state
  unchanged and sends nothing. So one query goes out.
\<close>

theorem second_dispatch_is_noop:
  assumes "processTranscript s = (s1, Some q)"
  shows "isProcessingRef s1 \<and> processTranscript s1 = (s1, None) \<and> silenceTimeout s1 = (s1, None)"
proof -
  have "isProcessingRef s1"
    using assms by (auto simp: processTranscript_def Let_def split: if_splits)
  then show ?thesis by (simp add: dispatch_noop_in_flight)
qed

theorem second_dispatch_is_noop_witness:
  "processTranscript (onTranscript (final ''hello'') listening)
     = (fst (processTranscript (onTranscript (final ''hello'') listening)),
        Some \<lparr>query = ''hello'', top_k = 5\<rparr>)
   \<and> isProcessingRef (fst (processTranscript (onTranscript (final ''hello'') listening)))
   \<and> processTranscript (fst (processTranscript (onTranscript (final ''hello'') listening)))
     = (fst (processTranscript (onTranscript (final ''hello'') listening)), None)
   \<and> silenceTimeout (fst (processTranscript (onTranscript (final ''hello'') listening)))
     = (fst (processTranscript (onTranscript (final ''hello'') listening)), None)"
proof -
  have first: "processTranscript (onTranscript (final ''hello'') listening)
     = (fst (processTranscript (onTranscript (final ''hello'') listening)),
        Some \<lparr>query = ''hello'', top_k = 5\<rparr>)"
    by (simp add: processTranscript_def onTranscript_def final_def clearSilenceTimer_def
        listening_def App_init_def trim_def is_ws_def Let_def)
  from first second_dispatch_is_noop [OF first] show ?thesis by simp
qed

subsection \<open>A query that fails\<close>

text \<open>
  The \<^verbatim>\<open>catch\<close> block surfaces the error, ends the processing state and resumes
  listening under its guard. It leaves the buffer and the displayed transcript alone.
\<close>

lemma processTranscript_catch_effect:
  "transcriptBufferRef (processTranscript_catch r detail s) = transcriptBufferRef s"
  "transcript (processTranscript_catch r detail s) = transcript s"
  "error (processTranscript_catch r detail s) = ''Failed to process query: '' @ detail"
  "\<not> isProcessingRef (processTranscript_catch r detail s)"
  "\<not> isProcessing (processTranscript_catch r detail s)"
  "isListening (processTranscript_catch r detail s)
     = (if r \<and> deepgramSocketRef s \<noteq> None then True else isListening s)"
  by (auto simp: processTranscript_catch_def Let_def)

text \<open>
  Claim C5, on the code. The user has said ``hello'' and the query request rejects with
  the message ``Network Error''. The buffer still holds `` hello'' afterwards; when the
  user then says ``again'', the next query is ``hello again''. On the path where the
  query succeeds, \<^const>\<open>processTranscript_spoken\<close> empties the buffer.
\<close>

theorem query_failure_keeps_buffer:
  "transcriptBufferRef (processTranscript_catch True ''Network Error'' asked_hello) = '' hello''
   \<and> snd (fireTimeout 2 (onTranscript (final ''again'')
             (processTranscript_catch True ''Network Error'' asked_hello)))
       = Some \<lparr>query = ''hello again'', top_k = 5\<rparr>"
  by (simp add: asked_hello_def processTranscript_catch_def fireTimeout_def silenceTimeout_def
      processTranscript_def onTranscript_def final_def clearSilenceTimer_def
      listening_def App_init_def trim_def is_ws_def Let_def)

subsection \<open>Revealing the answer\<close>

text \<open>
  Nothing is revealed before the audio element fires an event: neither the start of
  \<^verbatim>\<open>speakResponse\<close> nor the arrival of the audio touches the response or the history.
  The \<^verbatim>\<open>play\<close> listener reveals once and is then gone; the \<^verbatim>\<open>error\<close> handler reveals
  whenever it runs.
\<close>

lemma speakResponse_no_reveal:
  "response (fst (speakResponse text question s)) = response s"
  "chatHistory (fst (speakResponse text question s)) = chatHistory s"
  "response (fst (speakResponse_received text question s)) = response s"
  "chatHistory (fst (speakResponse_received text question s)) = chatHistory s"
  by (simp_all add: speakResponse_received_def speakResponse_def Let_def)

lemma audio_play_reveals:
  "p_audio p \<in> playListeners s \<Longrightarrow>
   response (audio_play p now s) = p_text p \<and>
   chatHistory (audio_play p now s) = chatHistory s @
     [\<lparr>turn_question = p_question p, turn_answer = p_text p, turn_timestamp = now\<rparr>]"
  by (simp add: audio_play_def onPlayHandler_def)

lemma audio_play_once:
  "audio_play p now' (audio_play p now s) = audio_play p now s"
  by (simp add: audio_play_def onPlayHandler_def)

lemma audio_onerror_reveals:
  "response (audio_onerror p now s) = p_text p \<and>
   chatHistory (audio_onerror p now s) = chatHistory s @
     [\<lparr>turn_question = p_question p, turn_answer = p_text p, turn_timestamp = now\<rparr>]"
  by (simp add: audio_onerror_def)

text \<open>
  Claim C3, on the code. The synthesis request has succeeded for the answer ``42'' to
  the question ``hello''. The audio element fires \<^verbatim>\<open>play\<close> and, later, \<^verbatim>\<open>error\<close>:
  the history, empty before, then holds the turn twice.
\<close>

theorem answer_revealed_twice:
  "chatHistory (audio_onerror (snd answered) ''10:00:05''
                  (audio_play (snd answered) ''10:00:00'' (fst answered)))
     = [\<lparr>turn_question = ''hello'', turn_answer = ''42'', turn_timestamp = ''10:00:00''\<rparr>,
        \<lparr>turn_question = ''hello'', turn_answer = ''42'', turn_timestamp = ''10:00:05''\<rparr>]"
  by (simp add: answered_def speakResponse_received_def speakResponse_def audio_play_def
      onPlayHandler_def audio_onerror_def asked_hello_def fireTimeout_def silenceTimeout_def
      processTranscript_def onTranscript_def final_def clearSilenceTimer_def
      listening_def App_init_def trim_def is_ws_def Let_def)

subsection \<open>The object URL of the audio\<close>

text \<open>Only \<^verbatim>\<open>audio.onended\<close> revokes the URL.\<close>

lemma audio_onended_revokes:
  "p_audioUrl p \<notin> objectUrls (audio_onended p s)"
  by (simp add: audio_onended_def)

lemma objectUrls_kept:
  "objectUrls (audio_onerror p now s) = objectUrls s"
  "objectUrls (audio_play p now s) = objectUrls s"
  "objectUrls (speakResponse_catch text question detail now s) = objectUrls s"
  "objectUrls (processTranscript_spoken r s) = objectUrls s"
  by (simp_all add: audio_onerror_def audio_play_def onPlayHandler_def speakResponse_catch_def
      processTranscript_spoken_def Let_def)

text \<open>
  Claim C9, on the code. The URL created for the answer ``42'' is still there after the
  audio element has fired \<^verbatim>\<open>error\<close>, whether playback had started or not, and after
  the promise of \<^verbatim>\<open>audio.play()\<close> has rejected as well.
\<close>

theorem url_not_revoked_on_error:
  "p_audioUrl (snd answered) \<in> objectUrls (fst answered)
   \<and> p_audioUrl (snd answered)
       \<in> objectUrls (audio_onerror (snd answered) ''10:00:05''
                       (audio_play (snd answered) ''10:00:00'' (fst answered)))
   \<and> p_audioUrl (snd answered)
       \<in> objectUrls (deliver (PlayRejected True ''42'' ''hello'' ''NotSupportedError'' ''10:00:05'')
                       (audio_onerror (snd answered) ''10:00:05'' (fst answered)))"
  by (simp add: objectUrls_kept answered_def speakResponse_received_def Let_def)

subsection \<open>Stopping the conversation\<close>

lemma stopRecording_refs:
  "silenceTimerRef (stopRecording s) = None"
  "audioStreamRef (stopRecording s) = None"
  "deepgramSocketRef (stopRecording s) = None"
  "\<not> isRecording (stopRecording s)"
  "\<not> isListening (stopRecording s)"
  by (simp_all add: stopRecording_def clearSilenceTimer_def Let_def split: option.splits)

text \<open>
  What \<^verbatim>\<open>stopRecording\<close> releases is what the refs held: the timeout is cleared, every
  track of the stream is stopped, the connection is finished. The rest of the state is
  left as it was.
\<close>

lemma stopRecording_resources:
  "pendingTimeouts (stopRecording s) = pendingTimeouts s - set_option (silenceTimerRef s)"
  "liveTracks (stopRecording s)
     = liveTracks s - (case audioStreamRef s of None \<Rightarrow> {} | Some tracks \<Rightarrow> set tracks)"
  "openConnections (stopRecording s) = openConnections s - set_option (deepgramSocketRef s)"
  by (simp_all add: stopRecording_def clearSilenceTimer_def Let_def split: option.splits)

lemma stopRecording_frame:
  "transcriptBufferRef (stopRecording s) = transcriptBufferRef s"
  "transcript (stopRecording s) = transcript s"
  "response (stopRecording s) = response s"
  "chatHistory (stopRecording s) = chatHistory s"
  "isProcessingRef (stopRecording s) = isProcessingRef s"
  "isSpeakingRef (stopRecording s) = isSpeakingRef s"
  "objectUrls (stopRecording s) = objectUrls s"
  "playListeners (stopRecording s) = playListeners s"
  by (simp_all add: stopRecording_def clearSilenceTimer_def Let_def split: option.splits)




text \<open>
  The refs hold every resource at mount. The transcript handler, the timeout, the
  callbacks of a dispatch and \<^verbatim>\<open>stopRecording\<close> keep it so, and where it is so,
  \<^verbatim>\<open>stopRecording\<close> leaves nothing behind.
\<close>

lemma resources_owned_init: "resources_owned App_init"
  by (simp add: resources_owned_def App_init_def)

lemma resources_owned_onTranscript:
  "resources_owned s \<Longrightarrow> resources_owned (onTranscript d s)"
  by (auto simp: resources_owned_def onTranscript_def clearSilenceTimer_def Let_def
      split: option.splits)

lemma resources_owned_fireTimeout:
  "resources_owned s \<Longrightarrow> resources_owned (fst (fireTimeout t s))"
  by (auto simp: resources_owned_def fireTimeout_def silenceTimeout_def processTranscript_def
      Let_def split: option.splits)

lemma resources_owned_deliver:
  "resources_owned s \<Longrightarrow> resources_owned (deliver c s)"
  by (cases c)
     (auto simp: resources_owned_def processTranscript_catch_def processTranscript_spoken_def
      speakResponse_def speakResponse_received_def speakResponse_catch_def audio_play_def
      onPlayHandler_def audio_onended_def audio_onerror_def onClose_def clearSilenceTimer_def
      Let_def split: option.splits)

lemma resources_owned_stopRecording:
  "resources_owned s \<Longrightarrow> resources_owned (stopRecording s)"
  by (auto simp: resources_owned_def stopRecording_refs stopRecording_resources)

lemma stop_leaves_nothing_when_owned:
  assumes "resources_owned s"
  shows "pendingTimeouts (stopRecording s) = {}
       \<and> openConnections (stopRecording s) = {}
       \<and> liveTracks (stopRecording s) = {}"
  using assms
  by (auto simp: resources_owned_def stopRecording_resources)

text \<open>
  \<^verbatim>\<open>startRecording\<close> does not keep it so. The example state \<^const>\<open>listening\<close> is the
  one a first start reaches from mount. When its connection closes, the close handler
  releases neither the stream nor the recorder; a second start then assigns the refs
  anew, and the first stream is held by no ref any more.
\<close>

lemma listening_reached:
  "listening =
     onOpen 1 (startRecording_granted [3] 2 1 (fst (startRecording (Some ''key'') App_init)))"
  by (simp add: listening_def onOpen_def startRecording_granted_def startRecording_def
      App_init_def)

lemma restarted_not_owned: "\<not> resources_owned restarted"
  by (simp add: resources_owned_def restarted_def onOpen_def startRecording_granted_def
      startRecording_def onClose_def clearSilenceTimer_def listening_def App_init_def)



subsection \<open>Partial transcripts\<close>

text \<open>
  Claim C7 as stated fails. A final ``hello'' has armed the silence timer; the partial
  transcript ``uh'' that follows clears the timer ref and the pending timeout.
\<close>

theorem partial_cancels_timer_counterexample:
  "silenceTimerRef (onTranscript (partial ''uh'') (onTranscript (final ''hello'') listening))
     \<noteq> silenceTimerRef (onTranscript (final ''hello'') listening)
   \<and> pendingTimeouts (onTranscript (partial ''uh'') (onTranscript (final ''hello'') listening))
     \<noteq> pendingTimeouts (onTranscript (final ''hello'') listening)"
  by (simp add: onTranscript_def final_def partial_def clearSilenceTimer_def
        listening_def App_init_def trim_def is_ws_def Let_def)

text \<open>
  No partial transcript, accepted or not, changes the buffer or schedules a timeout.
  A final transcript that is accepted schedules a new timeout in place of the old one.
\<close>

lemma partial_keeps_buffer:
  "transcriptBufferRef (onTranscript (partial f) s) = transcriptBufferRef s"
  "nextTimeout (onTranscript (partial f) s) = nextTimeout s"
  by (simp_all add: onTranscript_def partial_def clearSilenceTimer_def split: option.splits)

lemma final_reschedules:
  assumes "\<not> isSpeakingRef s" and "\<not> isProcessingRef s" and "trim f \<noteq> []"
  shows "silenceTimerRef (onTranscript (final f) s) = Some (nextTimeout s)"
    and "pendingTimeouts (onTranscript (final f) s)
           = insert (nextTimeout s) (pendingTimeouts s - set_option (silenceTimerRef s))"
  using assms
  by (auto simp: onTranscript_def final_def clearSilenceTimer_def Let_def trim_def
      split: option.splits)

text \<open>
  Claim C7, amended. A partial transcript that is not blank and arrives while neither
  \<^verbatim>\<open>isSpeakingRef\<close> nor \<^verbatim>\<open>isProcessingRef\<close> is set leaves the committed buffer as it
  is, shows the trimmed buffer followed by the fragment, and cancels the silence timer
  that was pending without scheduling another; only final fragments schedule one.
\<close>

theorem partial_transcript_effect:
  assumes "\<not> isSpeakingRef s" and "\<not> isProcessingRef s" and "trim f \<noteq> []"
  shows "transcriptBufferRef (onTranscript (partial f) s) = transcriptBufferRef s
       \<and> transcript (onTranscript (partial f) s) = trim (transcriptBufferRef s @ '' '' @ f)
       \<and> silenceTimerRef (onTranscript (partial f) s) = None
       \<and> pendingTimeouts (onTranscript (partial f) s)
           = pendingTimeouts s - set_option (silenceTimerRef s)
       \<and> nextTimeout (onTranscript (partial f) s) = nextTimeout s"
  using assms
  by (auto simp: onTranscript_def partial_def clearSilenceTimer_def trim_def
      split: option.splits)

theorem partial_transcript_effect_witness:
  "\<not> isSpeakingRef (onTranscript (final ''hello'') listening)
   \<and> \<not> isProcessingRef (onTranscript (final ''hello'') listening)
   \<and> trim ''uh'' \<noteq> []
   \<and> transcriptBufferRef (onTranscript (partial ''uh'') (onTranscript (final ''hello'') listening))
       = '' hello''
   \<and> transcript (onTranscript (partial ''uh'') (onTranscript (final ''hello'') listening))
       = ''hello uh''
   \<and> silenceTimerRef (onTranscript (partial ''uh'') (onTranscript (final ''hello'') listening))
       = None
   \<and> pendingTimeouts (onTranscript (partial ''uh'') (onTranscript (final ''hello'') listening))
       = {}"
proof -
  have h: "\<not> isSpeakingRef (onTranscript (final ''hello'') listening)"
      "\<not> isProcessingRef (onTranscript (final ''hello'') listening)"
      "trim ''uh'' \<noteq> []"
    by (simp_all add: onTranscript_def final_def clearSilenceTimer_def
        listening_def App_init_def trim_def is_ws_def Let_def)
  have s: "transcriptBufferRef (onTranscript (final ''hello'') listening) = '' hello''"
      "silenceTimerRef (onTranscript (final ''hello'') listening) = Some 1"
      "pendingTimeouts (onTranscript (final ''hello'') listening) = {1}"
    by (simp_all add: onTranscript_def final_def clearSilenceTimer_def
        listening_def App_init_def trim_def is_ws_def Let_def)
  from partial_transcript_effect [OF h] h s show ?thesis
    by (simp add: trim_def is_ws_def)
qed

subsection \<open>Stopping while a query is in flight\<close>

text \<open>
  Claim C8 as stated fails. The user stops the conversation while the query for
  ``hello'' is in flight; when the query resolves with ``42'', \<^verbatim>\<open>speakResponse\<close>
  runs all the same and sets the speaking state and its ref.
\<close>

theorem stale_answer_spoken_counterexample:
  "isSpeaking (deliver (QueryResolved ''42'' ''hello'') (stopRecording asked_hello))
   \<and> isSpeakingRef (deliver (QueryResolved ''42'' ''hello'') (stopRecording asked_hello))"
  by (simp add: speakResponse_def)

text \<open>
  With the connection ref \<^verbatim>\<open>null\<close> and listening and recording off, no callback of a
  dispatch turns them on.
\<close>

lemma deliver_idle:
  assumes "deepgramSocketRef s = None" and "\<not> isListening s" and "\<not> isRecording s"
  shows "deepgramSocketRef (deliver c s) = None \<and> \<not> isListening (deliver c s)
         \<and> \<not> isRecording (deliver c s)"
  using assms
  by (cases c)
     (auto simp: processTranscript_catch_def processTranscript_spoken_def
      speakResponse_def speakResponse_received_def speakResponse_catch_def audio_play_def
      onPlayHandler_def audio_onended_def audio_onerror_def onClose_def clearSilenceTimer_def
      Let_def split: option.splits)

lemma delivers_idle:
  assumes "deepgramSocketRef s = None" and "\<not> isListening s" and "\<not> isRecording s"
  shows "deepgramSocketRef (delivers cs s) = None \<and> \<not> isListening (delivers cs s)
         \<and> \<not> isRecording (delivers cs s)"
  using assms unfolding delivers_def
proof (induction cs arbitrary: s)
  case Nil
  then show ?case by simp
next
  case (Cons c cs)
  from deliver_idle [OF Cons.prems, of c] show ?case
    by (simp add: Cons.IH)
qed

text \<open>
  In any state, stopped or not: a query that resolves starts \<^verbatim>\<open>speakResponse\<close>, which
  sets the speaking state and sends the answer to synthesis; the audio that arrives gets
  its URL and its \<^verbatim>\<open>play\<close> listener; the \<^verbatim>\<open>play\<close> event reveals the answer and
  appends the turn.
\<close>

lemma answer_spoken:
  "isSpeaking (deliver (QueryResolved answer question) s)"
  "isSpeakingRef (deliver (QueryResolved answer question) s)"
  "snd (speakResponse answer question s) = \<lparr>tts_text = answer, tts_model = ''aura-asteria-en''\<rparr>"
  by (simp_all add: speakResponse_def)

lemma answer_played:
  "p_audio (snd (speakResponse_received text question s))
     \<in> playListeners (fst (speakResponse_received text question s))"
  "p_audioUrl (snd (speakResponse_received text question s))
     \<in> objectUrls (fst (speakResponse_received text question s))"
  "p_text (snd (speakResponse_received text question s)) = text"
  "p_question (snd (speakResponse_received text question s)) = question"
  by (simp_all add: speakResponse_received_def Let_def)

lemma answer_revealed:
  "response (audio_play (snd (speakResponse_received text question s)) now
       (fst (speakResponse_received text question s))) = text"
  "chatHistory (audio_play (snd (speakResponse_received text question s)) now
       (fst (speakResponse_received text question s)))
     = chatHistory s @ [\<lparr>turn_question = question, turn_answer = text, turn_timestamp = now\<rparr>]"
  by (simp_all add: audio_play_def onPlayHandler_def speakResponse_received_def Let_def)

text \<open>
  Claim C8, amended. After \<^verbatim>\<open>stopRecording\<close>, in whatever state it was called, the
  callbacks of a dispatch in flight never turn listening or recording on again, however
  the query, the synthesis and the playback end and whatever value of \<^verbatim>\<open>isRecording\<close>
  the closures hold, and the connection ref stays \<^verbatim>\<open>null\<close>. The result of the query
  is applied all the same: when it resolves, the speaking state and its ref are set and
  the answer is sent to synthesis; when the audio arrives, the \<^verbatim>\<open>play\<close> listener is
  registered on it; when it plays, the answer is shown as the response and the turn is
  appended to the history the session had when it was stopped.
\<close>

theorem stale_answer_applied_not_listening:
  "\<not> isListening (delivers cs (stopRecording s))
   \<and> \<not> isRecording (delivers cs (stopRecording s))
   \<and> deepgramSocketRef (delivers cs (stopRecording s)) = None
   \<and> isSpeaking (deliver (QueryResolved answer question) (stopRecording s))
   \<and> isSpeakingRef (deliver (QueryResolved answer question) (stopRecording s))
   \<and> snd (speakResponse answer question (stopRecording s))
       = \<lparr>tts_text = answer, tts_model = ''aura-asteria-en''\<rparr>
   \<and> p_audio (snd (speakResponse_received answer question
          (deliver (QueryResolved answer question) (stopRecording s))))
       \<in> playListeners (fst (speakResponse_received answer question
          (deliver (QueryResolved answer question) (stopRecording s))))
   \<and> response
        (audio_play
          (snd (speakResponse_received answer question
             (deliver (QueryResolved answer question) (stopRecording s)))) now
          (fst (speakResponse_received answer question
             (deliver (QueryResolved answer question) (stopRecording s)))))
       = answer
   \<and> chatHistory
        (audio_play
          (snd (speakResponse_received answer question
             (deliver (QueryResolved answer question) (stopRecording s)))) now
          (fst (speakResponse_received answer question
             (deliver (QueryResolved answer question) (stopRecording s)))))
       = chatHistory s @
           [\<lparr>turn_question = question, turn_answer = answer, turn_timestamp = now\<rparr>]"
proof -
  have idle: "\<not> isListening (delivers cs (stopRecording s))
      \<and> \<not> isRecording (delivers cs (stopRecording s))
      \<and> deepgramSocketRef (delivers cs (stopRecording s)) = None"
    using delivers_idle [of "stopRecording s" cs] by (simp add: stopRecording_refs)
  have history: "chatHistory (deliver (QueryResolved answer question) (stopRecording s))
      = chatHistory s"
    by (simp add: speakResponse_def stopRecording_frame)
  show ?thesis
    using idle history
    by (simp only: answer_spoken answer_played answer_revealed simp_thms)
qed

end
